theory Spec2Isabelle
  imports Complex_Main "HOL-Library.AList" "HOL-Library.Multiset"
begin

section \<open>Activity tracker: accounting, persistence, settings and reminders\<close>

text \<open>
  A shallow embedding of \<^verbatim>\<open>Activity_Tracker.py\<close>. Python floats are modelled as
  exact reals, except in the accounting step in double arithmetic, which rounds the
  result of every addition and subtraction to the nearest double. A Python \<^verbatim>\<open>dict\<close> is an association list in insertion order:
  assigning to an existing key replaces its value in place, assigning to a new
  key appends it (\<open>AList.update\<close>), and a lookup is \<open>map_of\<close>. Every reading of a
  clock (\<^verbatim>\<open>time.time()\<close>, \<^verbatim>\<open>datetime.now()\<close>), the answer of the foreground-window
  probe, the outcome of a file write and the answer of a dialog are inputs of the
  function that reads them.
\<close>

subsection \<open>Python helpers\<close>

type_synonym ('k, 'v) pydict = "('k \<times> 'v) list"

text \<open>\<^verbatim>\<open>d[k]\<close> on a \<^verbatim>\<open>defaultdict(float)\<close>: a missing key reads as \<open>0.0\<close>.\<close>

definition dd_get :: "(string, real) pydict \<Rightarrow> string \<Rightarrow> real" where
  "dd_get d k = (case map_of d k of None \<Rightarrow> 0 | Some v \<Rightarrow> v)"

text \<open>\<^verbatim>\<open>d[k] += x\<close> on a \<^verbatim>\<open>defaultdict(float)\<close>.\<close>

definition dd_add :: "(string, real) pydict \<Rightarrow> string \<Rightarrow> real \<Rightarrow> (string, real) pydict" where
  "dd_add d k x = AList.update k (dd_get d k + x) d"

text \<open>\<^verbatim>\<open>sum(d.values())\<close>.\<close>

definition sum_values :: "(string, real) pydict \<Rightarrow> real" where
  "sum_values d = sum_list (map snd d)"

text \<open>\<^verbatim>\<open>int(x)\<close> on a float truncates towards zero.\<close>

definition py_int :: "real \<Rightarrow> int" where
  "py_int x = (if 0 \<le> x then \<lfloor>x\<rfloor> else \<lceil>x\<rceil>)"

text \<open>The slice \<^verbatim>\<open>xs[-n:]\<close> for a positive \<open>n\<close>: the last \<open>n\<close> elements.\<close>

definition py_last_n :: "nat \<Rightarrow> 'a list \<Rightarrow> 'a list" where
  "py_last_n n xs = drop (length xs - n) xs"

text \<open>The slice \<^verbatim>\<open>xs[:n]\<close>; a negative \<open>n\<close> counts from the end.\<close>

definition py_take :: "int \<Rightarrow> 'a list \<Rightarrow> 'a list" where
  "py_take n xs = (if 0 \<le> n then take (nat n) xs else take (length xs - nat (- n)) xs)"

text \<open>
  \<^verbatim>\<open>sorted(xs, key=key, reverse=True)\<close>: Python's sort is stable, and with
  \<^verbatim>\<open>reverse=True\<close> elements with equal keys keep their original order.
\<close>

definition py_sorted_reverse :: "('a \<Rightarrow> real) \<Rightarrow> 'a list \<Rightarrow> 'a list" where
  "py_sorted_reverse key xs = sort_key (\<lambda>x. - key x) xs"

subsection \<open>ActivityTracker\<close>

record log_entry =
  timestamp :: string
  app_name :: string
  window_title :: string
  action :: string

text \<open>
  The fields of \<^verbatim>\<open>ActivityTracker\<close>. \<^verbatim>\<open>data_file\<close> is a path; the one file it names is
  the \<open>file_state\<close> value passed beside the tracker.
\<close>

record tracker =
  activities :: "(string, real) pydict"
  current_activity :: "string option"
  last_check_time :: real
  idle_time :: real
  active_time :: real
  session_start :: real
  daily_logs :: "log_entry list"
  is_tracking :: bool

text \<open>
  The JSON object of the data file. Each key may be absent (\<^verbatim>\<open>data.get(key, default)\<close>);
  a present key holds a value of the type \<^verbatim>\<open>save_data\<close> writes.
\<close>

record data =
  f_activities :: "(string, real) pydict option"
  f_idle_time :: "real option"
  f_active_time :: "real option"
  f_session_start :: "real option"
  f_daily_logs :: "log_entry list option"

text \<open>
  The data file: absent, present but raising on \<^verbatim>\<open>open\<close> or \<^verbatim>\<open>json.load\<close> (unreadable,
  truncated or not the JSON object above), or holding an object.
\<close>

datatype file_state = Absent | Unreadable | Stored data

text \<open>
  What happens inside the \<^verbatim>\<open>try\<close> of \<^verbatim>\<open>save_data\<close>: \<^verbatim>\<open>open(..., 'w')\<close> raises and the file
  is untouched, \<^verbatim>\<open>json.dump\<close> raises after the file was truncated, or the write succeeds.
\<close>

datatype io_outcome = OpenFails | WriteFails | WriteOk

definition save_data :: "tracker \<Rightarrow> io_outcome \<Rightarrow> file_state \<Rightarrow> file_state" where
  "save_data t out f =
     (case out of
        OpenFails \<Rightarrow> f
      | WriteFails \<Rightarrow> Unreadable
      | WriteOk \<Rightarrow> Stored
          \<lparr>f_activities = Some (activities t),
           f_idle_time = Some (idle_time t),
           f_active_time = Some (active_time t),
           f_session_start = Some (session_start t),
           f_daily_logs = Some (py_last_n 1000 (daily_logs t))\<rparr>)"

definition load_data :: "file_state \<Rightarrow> tracker \<Rightarrow> tracker" where
  "load_data f t =
     (case f of
        Absent \<Rightarrow> t
      | Unreadable \<Rightarrow> t
      | Stored d \<Rightarrow>
          t\<lparr>activities := (case f_activities d of None \<Rightarrow> [] | Some a \<Rightarrow> a),
            idle_time := (case f_idle_time d of None \<Rightarrow> 0 | Some x \<Rightarrow> x),
            active_time := (case f_active_time d of None \<Rightarrow> 0 | Some x \<Rightarrow> x),
            daily_logs := (case f_daily_logs d of None \<Rightarrow> [] | Some l \<Rightarrow> l),
            session_start := (case f_session_start d of None \<Rightarrow> session_start t | Some x \<Rightarrow> x)\<rparr>)"

text \<open>
  \<^verbatim>\<open>ActivityTracker.__init__\<close>: \<open>now1\<close> and \<open>now2\<close> are its two readings of
  \<^verbatim>\<open>time.time()\<close>.
\<close>

definition tracker_init :: "real \<Rightarrow> real \<Rightarrow> file_state \<Rightarrow> tracker" where
  "tracker_init now1 now2 f =
     load_data f
       \<lparr>activities = [], current_activity = None, last_check_time = now1,
        idle_time = 0, active_time = 0, session_start = now2, daily_logs = [],
        is_tracking = True\<rparr>"

text \<open>
  One call of \<^verbatim>\<open>track_activity\<close> reads \<^verbatim>\<open>time.time()\<close> (\<open>current_time\<close>), the foreground
  window (\<open>window_info\<close>, \<open>None\<close> when undeterminable), \<^verbatim>\<open>datetime.now().isoformat()\<close>
  (\<open>stamp\<close>) and, when it saves, the outcome of the write (\<open>save_outcome\<close>).
\<close>

record sample =
  current_time :: real
  window_info :: "(string \<times> string) option"
  stamp :: string
  save_outcome :: io_outcome

fun track_activity :: "sample \<Rightarrow> tracker \<times> file_state \<Rightarrow> tracker \<times> file_state" where
  "track_activity smp (t, f) =
     (let time_delta = current_time smp - last_check_time t;
          time_delta = (if time_delta < 0 then 0 else time_delta);
          t1 = (case window_info smp of
                  Some (app, title) \<Rightarrow>
                    (let t' = t\<lparr>activities := dd_add (activities t) app time_delta,
                                active_time := active_time t + time_delta\<rparr>
                     in if current_activity t' \<noteq> Some app
                        then t'\<lparr>daily_logs := daily_logs t' @
                                   [\<lparr>timestamp = stamp smp, app_name = app,
                                     window_title = title, action = ''switched_to''\<rparr>],
                                 current_activity := Some app\<rparr>
                        else t')
                | None \<Rightarrow> t\<lparr>idle_time := idle_time t + time_delta\<rparr>);
          t2 = t1\<lparr>last_check_time := current_time smp\<rparr>
      in (t2, if py_int (current_time smp) mod 10 = 0 then save_data t2 (save_outcome smp) f else f))"

text \<open>A sequence of \<^verbatim>\<open>track_activity\<close> calls, the first sample first.\<close>

fun track_all :: "sample list \<Rightarrow> tracker \<times> file_state \<Rightarrow> tracker \<times> file_state" where
  "track_all [] w = w"
| "track_all (smp # smps) w = track_all smps (track_activity smp w)"

text \<open>\<^verbatim>\<open>clear_data\<close>; \<open>now\<close> is its reading of \<^verbatim>\<open>time.time()\<close>.\<close>

fun clear_data :: "real \<Rightarrow> io_outcome \<Rightarrow> tracker \<times> file_state \<Rightarrow> tracker \<times> file_state" where
  "clear_data now out (t, f) =
     (let t' = t\<lparr>activities := [], idle_time := 0, active_time := 0,
                 session_start := now, daily_logs := []\<rparr>
      in (t', save_data t' out f))"

definition get_top_apps :: "tracker \<Rightarrow> int \<Rightarrow> (string \<times> real) list" where
  "get_top_apps t n = py_take n (py_sorted_reverse snd (activities t))"

record statistics =
  total_time :: real
  stat_active_time :: real
  stat_idle_time :: real
  stat_activities :: "(string, real) pydict"
  top_apps :: "(string \<times> real) list"

definition get_statistics :: "real \<Rightarrow> tracker \<Rightarrow> statistics" where
  "get_statistics now t =
     \<lparr>total_time = max 1 (now - session_start t),
      stat_active_time = active_time t,
      stat_idle_time = idle_time t,
      stat_activities = activities t,
      top_apps = get_top_apps t 5\<rparr>"

subsection \<open>The accounting step in double arithmetic\<close>

text \<open>
  A Python float is an IEEE 754 binary64 number, and \<^verbatim>\<open>+\<close> and \<^verbatim>\<open>-\<close> return the exact
  result rounded to the nearest such number, ties to the even significand. The
  numbers are the reals that are doubles; infinities, NaN, overflow and the reduced
  precision of subnormal numbers are not modelled, so \<open>round_double\<close> is what the
  machine computes for 0 and for results of magnitude from \<open>1 / 2 ^ 1022\<close> up to
  \<open>2 ^ 1024\<close>.
\<close>












subsection \<open>SettingsManager\<close>

text \<open>A value read by \<^verbatim>\<open>json.load\<close>; settings are stored untyped.\<close>

datatype json =
    JNull
  | JBool bool
  | JInt int
  | JFloat real
  | JStr string
  | JArr "json list"
  | JObj "(string \<times> json) list"

text \<open>The truth value Python gives a settings value in \<^verbatim>\<open>if\<close>.\<close>

fun py_truthy :: "json \<Rightarrow> bool" where
  "py_truthy JNull = False"
| "py_truthy (JBool b) = b"
| "py_truthy (JInt n) = (n \<noteq> 0)"
| "py_truthy (JFloat x) = (x \<noteq> 0)"
| "py_truthy (JStr s) = (s \<noteq> [])"
| "py_truthy (JArr xs) = (xs \<noteq> [])"
| "py_truthy (JObj kvs) = (kvs \<noteq> [])"

text \<open>
  \<^verbatim>\<open>float(v)\<close>, \<open>None\<close> where Python raises. How the built-in parses a string is not
  part of the program: \<open>parse\<close> stands for it.
\<close>

fun py_float :: "(string \<Rightarrow> real option) \<Rightarrow> json \<Rightarrow> real option" where
  "py_float parse JNull = None"
| "py_float parse (JBool b) = Some (if b then 1 else 0)"
| "py_float parse (JInt n) = Some (real_of_int n)"
| "py_float parse (JFloat x) = Some x"
| "py_float parse (JStr s) = parse s"
| "py_float parse (JArr xs) = None"
| "py_float parse (JObj kvs) = None"

text \<open>\<^verbatim>\<open>d.update(other)\<close>: the items of \<open>other\<close> are assigned in their order.\<close>

definition dict_update :: "('k, 'v) pydict \<Rightarrow> ('k, 'v) pydict \<Rightarrow> ('k, 'v) pydict" where
  "dict_update d other = fold (\<lambda>(k, v) acc. AList.update k v acc) other d"

definition initial_default_settings :: "(string, json) pydict" where
  "initial_default_settings =
     [(''reminders_enabled'', JBool True),
      (''break_reminder_enabled'', JBool True),
      (''break_interval'', JInt 30),
      (''app_usage_warnings'', JBool True),
      (''entertainment_threshold'', JFloat 2),
      (''idle_warning_enabled'', JBool True),
      (''idle_threshold'', JInt 15),
      (''tracking_interval'', JInt 5),
      (''popup_interval'', JInt 30)]"

text \<open>
  The settings file as \<^verbatim>\<open>load_settings\<close> meets it: absent; raising inside the \<^verbatim>\<open>try\<close>
  (on \<^verbatim>\<open>open\<close>, on \<^verbatim>\<open>json.load\<close>, or on \<^verbatim>\<open>update\<close> of a top-level value that is no
  mapping); or a JSON object, given by its items. A top-level JSON array of pairs,
  which \<^verbatim>\<open>dict.update\<close> also accepts, is not represented.
\<close>

datatype settings_file = NoSettingsFile | SettingsRaise | SettingsObj "(string, json) pydict"

record settings_manager =
  default_settings :: "(string, json) pydict"
  settings :: "(string, json) pydict"

definition load_settings :: "(string, json) pydict \<Rightarrow> settings_file \<Rightarrow> (string, json) pydict" where
  "load_settings defaults file =
     (case file of
        NoSettingsFile \<Rightarrow> defaults
      | SettingsRaise \<Rightarrow> defaults
      | SettingsObj loaded \<Rightarrow> dict_update defaults loaded)"

definition settings_init :: "settings_file \<Rightarrow> settings_manager" where
  "settings_init file =
     \<lparr>default_settings = initial_default_settings,
      settings = load_settings initial_default_settings file\<rparr>"

text \<open>\<^verbatim>\<open>get_setting\<close>; \<^verbatim>\<open>dict.get\<close> of a key in neither mapping is \<^verbatim>\<open>None\<close>.\<close>

definition get_setting :: "settings_manager \<Rightarrow> string \<Rightarrow> json" where
  "get_setting sm key =
     (case map_of (settings sm) key of
        Some v \<Rightarrow> v
      | None \<Rightarrow> (case map_of (default_settings sm) key of Some v \<Rightarrow> v | None \<Rightarrow> JNull))"

definition save_settings :: "settings_manager \<Rightarrow> io_outcome \<Rightarrow> settings_file \<Rightarrow> settings_file" where
  "save_settings sm out file =
     (case out of
        OpenFails \<Rightarrow> file
      | WriteFails \<Rightarrow> SettingsRaise
      | WriteOk \<Rightarrow> SettingsObj (settings sm))"

definition set_setting ::
  "string \<Rightarrow> json \<Rightarrow> io_outcome \<Rightarrow> settings_manager \<times> settings_file \<Rightarrow> settings_manager \<times> settings_file" where
  "set_setting key v out w =
     (let sm = (fst w)\<lparr>settings := AList.update key v (settings (fst w))\<rparr>
      in (sm, save_settings sm out (snd w)))"

subsection \<open>PopupManager\<close>

record popup_manager =
  next_break_time :: real

definition popup_init :: popup_manager where
  "popup_init = \<lparr>next_break_time = 0\<rparr>"

definition entertainment_keywords :: "string list" where
  "entertainment_keywords =
     [''chrome'', ''firefox'', ''discord'', ''steam'', ''spotify'', ''youtube'', ''netflix'', ''edge'']"

text \<open>
  A call of \<^verbatim>\<open>show_simple_popup\<close>, by its title, with the numbers its message prints:
  \<^verbatim>\<open>"Break Reminder"\<close> with the active minutes, \<^verbatim>\<open>"Usage Alert"\<close> with the application
  and its hours, \<^verbatim>\<open>"Idle Alert"\<close> with the idle minutes. The text of the message is not
  modelled.
\<close>

datatype popup = BreakReminder real | UsageAlert string real | IdleAlert real

fun is_break :: "popup \<Rightarrow> bool" where
  "is_break (BreakReminder m) = True"
| "is_break (UsageAlert a h) = False"
| "is_break (IdleAlert m) = False"

text \<open>\<^verbatim>\<open>messagebox.askyesno\<close>: yes, no, or an exception.\<close>

datatype dialog_answer = AnswerYes | AnswerNo | DialogRaises

text \<open>\<^verbatim>\<open>str.lower\<close>, on ASCII letters.\<close>

definition char_lower :: "char \<Rightarrow> char" where
  "char_lower c =
     (let n = (of_char c :: nat) in if 65 \<le> n \<and> n \<le> 90 then char_of (n + 32) else c)"

definition lower :: "string \<Rightarrow> string" where
  "lower s = map char_lower s"

fun starts_with :: "string \<Rightarrow> string \<Rightarrow> bool" where
  "starts_with [] s = True"
| "starts_with (k # ks) [] = False"
| "starts_with (k # ks) (c # cs) = (k = c \<and> starts_with ks cs)"

text \<open>\<^verbatim>\<open>kw in s\<close> on strings: \<open>kw\<close> occurs in \<open>s\<close>.\<close>

fun py_in :: "string \<Rightarrow> string \<Rightarrow> bool" where
  "py_in kw [] = (kw = [])"
| "py_in kw (c # cs) = (starts_with kw (c # cs) \<or> py_in kw cs)"

text \<open>\<^verbatim>\<open>snooze_break\<close>; \<open>now\<close> is its reading of \<^verbatim>\<open>time.time()\<close>.\<close>

definition snooze_break :: "real \<Rightarrow> real \<Rightarrow> popup_manager \<Rightarrow> popup_manager" where
  "snooze_break now seconds pm = pm\<lparr>next_break_time := now + seconds\<rparr>"

text \<open>
  What one call of \<^verbatim>\<open>check_and_show_reminders\<close> reads from outside: \<^verbatim>\<open>time.time()\<close> in
  \<^verbatim>\<open>get_statistics\<close>, in the break condition and when the break reminder is resolved,
  and the answer to the snooze dialog.
\<close>

record reminder_input =
  stats_clock :: real
  check_clock :: real
  resolve_clock :: real
  snooze_answer :: dialog_answer

text \<open>
  What the call leaves behind: the popups shown, in order, the manager, and whether
  the call ended in an exception (a \<^verbatim>\<open>float(...)\<close> of a setting that is no number),
  which the caller's loop logs.
\<close>

record reminder_result =
  popups :: "popup list"
  manager :: popup_manager
  raised :: bool

text \<open>The break-reminder block; \<open>None\<close> when \<^verbatim>\<open>float(break_interval)\<close> raises.\<close>

definition break_block ::
  "(string \<Rightarrow> real option) \<Rightarrow> settings_manager \<Rightarrow> statistics \<Rightarrow> reminder_input \<Rightarrow>
   popup_manager \<Rightarrow> (popup list \<times> popup_manager) option" where
  "break_block parse sm stats inp pm =
     (if py_truthy (get_setting sm ''break_reminder_enabled'') then
        (let work_minutes = stat_active_time stats / 60 in
         case py_float parse (get_setting sm ''break_interval'') of
           None \<Rightarrow> None
         | Some break_interval \<Rightarrow>
             if work_minutes \<ge> break_interval \<and> check_clock inp \<ge> next_break_time pm then
               Some ([BreakReminder work_minutes],
                 (case snooze_answer inp of
                    AnswerYes \<Rightarrow> snooze_break (resolve_clock inp) 300 pm
                  | AnswerNo \<Rightarrow> pm\<lparr>next_break_time := resolve_clock inp + break_interval * 60\<rparr>
                  | DialogRaises \<Rightarrow> pm))
             else Some ([], pm))
      else Some ([], pm))"

text \<open>The usage-warning block; \<open>None\<close> when \<^verbatim>\<open>float(entertainment_threshold)\<close> raises.\<close>

definition usage_block ::
  "(string \<Rightarrow> real option) \<Rightarrow> settings_manager \<Rightarrow> statistics \<Rightarrow> popup list option" where
  "usage_block parse sm stats =
     (if py_truthy (get_setting sm ''app_usage_warnings'') then
        (case py_float parse (get_setting sm ''entertainment_threshold'') of
           None \<Rightarrow> None
         | Some threshold_hours \<Rightarrow>
             Some (map (\<lambda>(app, duration_seconds). UsageAlert app (duration_seconds / 3600))
                    (filter (\<lambda>(app, duration_seconds).
                               list_ex (\<lambda>keyword. py_in keyword (lower app)) entertainment_keywords \<and>
                               duration_seconds / 3600 > threshold_hours)
                       (stat_activities stats))))
      else Some [])"

text \<open>The idle-warning block; \<open>None\<close> when \<^verbatim>\<open>float(idle_threshold)\<close> raises.\<close>

definition idle_block ::
  "(string \<Rightarrow> real option) \<Rightarrow> settings_manager \<Rightarrow> statistics \<Rightarrow> popup list option" where
  "idle_block parse sm stats =
     (if py_truthy (get_setting sm ''idle_warning_enabled'') then
        (let idle_minutes = stat_idle_time stats / 60 in
         case py_float parse (get_setting sm ''idle_threshold'') of
           None \<Rightarrow> None
         | Some idle_threshold \<Rightarrow>
             if idle_minutes > idle_threshold then Some [IdleAlert idle_minutes] else Some [])
      else Some [])"

definition check_and_show_reminders ::
  "(string \<Rightarrow> real option) \<Rightarrow> settings_manager \<Rightarrow> tracker \<Rightarrow> reminder_input \<Rightarrow>
   popup_manager \<Rightarrow> reminder_result" where
  "check_and_show_reminders parse sm t inp pm =
     (if \<not> py_truthy (get_setting sm ''reminders_enabled'') then
        \<lparr>popups = [], manager = pm, raised = False\<rparr>
      else
        (let stats = get_statistics (stats_clock inp) t in
         case break_block parse sm stats inp pm of
           None \<Rightarrow> \<lparr>popups = [], manager = pm, raised = True\<rparr>
         | Some (ps1, pm1) \<Rightarrow>
             (case usage_block parse sm stats of
                None \<Rightarrow> \<lparr>popups = ps1, manager = pm1, raised = True\<rparr>
              | Some ps2 \<Rightarrow>
                  (case idle_block parse sm stats of
                     None \<Rightarrow> \<lparr>popups = ps1 @ ps2, manager = pm1, raised = True\<rparr>
                   | Some ps3 \<Rightarrow> \<lparr>popups = ps1 @ ps2 @ ps3, manager = pm1, raised = False\<rparr>))))"

subsection \<open>Predicates and concrete inputs used by the theorems\<close>







text \<open>A tracker in the middle of a session, \<^verbatim>\<open>code.exe\<close> being the current application.\<close>

definition demo_tracker :: tracker where
  "demo_tracker =
     \<lparr>activities = [(''code.exe'', 40), (''chrome.exe'', 20)],
      current_activity = Some ''code.exe'', last_check_time = 200,
      idle_time = 7, active_time = 60, session_start = 100,
      daily_logs = [\<lparr>timestamp = ''t0'', app_name = ''code.exe'',
                     window_title = ''main.py'', action = ''switched_to''\<rparr>],
      is_tracking = True\<rparr>"

text \<open>
  The \<open>i\<close>-th of a run of samples in which the foreground application alternates
  between \<^verbatim>\<open>a.exe\<close> and \<^verbatim>\<open>b.exe\<close>, so that every sample is a switch.
\<close>

definition switching_sample :: "nat \<Rightarrow> sample" where
  "switching_sample i =
     \<lparr>current_time = real i,
      window_info = Some (if even i then ''a.exe'' else ''b.exe'', ''w''),
      stamp = ''s'', save_outcome = WriteOk\<rparr>"

definition switching_samples :: "nat \<Rightarrow> sample list" where
  "switching_samples n = map switching_sample [0..<n]"

text \<open>The tracker after 1001 switches in a session started without a data file.\<close>

definition switched_tracker :: tracker where
  "switched_tracker = fst (track_all (switching_samples 1001) (tracker_init 0 0 Absent, Absent))"

text \<open>Three applications first seen in the order A, B, C; A and B tie.\<close>

definition three_apps :: tracker where
  "three_apps =
     \<lparr>activities = [(''A'', 100), (''B'', 100), (''C'', 50)],
      current_activity = Some ''C'', last_check_time = 250,
      idle_time = 0, active_time = 250, session_start = 0,
      daily_logs = [], is_tracking = True\<rparr>"

text \<open>A string parser for \<^verbatim>\<open>float\<close> that accepts nothing; no setting below is a string.\<close>

definition no_parse :: "string \<Rightarrow> real option" where
  "no_parse s = None"

text \<open>Settings loaded from a file that only switches the reminders off.\<close>

definition muted_settings :: settings_manager where
  "muted_settings = settings_init (SettingsObj [(''reminders_enabled'', JBool False)])"

text \<open>A tracker with 1900 active seconds, more than the default break interval.\<close>

definition busy_tracker :: tracker where
  "busy_tracker =
     \<lparr>activities = [(''code.exe'', 1900)],
      current_activity = Some ''code.exe'', last_check_time = 5000,
      idle_time = 0, active_time = 1900, session_start = 3000,
      daily_logs = [\<lparr>timestamp = ''t0'', app_name = ''code.exe'',
                     window_title = ''main.py'', action = ''switched_to''\<rparr>],
      is_tracking = True\<rparr>"

text \<open>A reminder check at time 5001 whose snooze dialog is answered at time 5010.\<close>

definition decline_input :: reminder_input where
  "decline_input =
     \<lparr>stats_clock = 5000, check_clock = 5001, resolve_clock = 5010, snooze_answer = AnswerNo\<rparr>"

definition snooze_input :: reminder_input where
  "snooze_input =
     \<lparr>stats_clock = 5000, check_clock = 5001, resolve_clock = 5010, snooze_answer = AnswerYes\<rparr>"

section \<open>Properties of the accounting engine\<close>

subsection \<open>Auxiliary facts\<close>

lemma sum_values_dd_add: "sum_values (dd_add d k x) = sum_values d + x"
  unfolding dd_add_def dd_get_def sum_values_def
  by (induction d) auto

lemma dd_get_dd_add_zero: "dd_get (dd_add d k 0) a = dd_get d a"
  by (simp add: dd_add_def dd_get_def AList.update_conv' split: option.splits)

lemma map_of_dd_add_zero: "map_of d a = Some v \<Longrightarrow> map_of (dd_add d k 0) a = Some v"
  by (auto simp: dd_add_def dd_get_def AList.update_conv')











lemma idle_samples_keep_current:
  "\<forall>s \<in> set idles. window_info s = None \<Longrightarrow>
   current_activity (fst (track_all idles w)) = current_activity (fst w) \<and>
   daily_logs (fst (track_all idles w)) = daily_logs (fst w)"
proof (induction idles arbitrary: w)
  case Nil
  then show ?case by simp
next
  case (Cons s idles)
  obtain t f where w: "w = (t, f)" by (cases w)
  from Cons.prems have s: "window_info s = None"
    and rest: "\<forall>s \<in> set idles. window_info s = None"
    by simp_all
  have "current_activity (fst (track_activity s w)) = current_activity (fst w) \<and>
        daily_logs (fst (track_activity s w)) = daily_logs (fst w)"
    using s by (simp add: w Let_def)
  with Cons.IH [OF rest, of "track_activity s w"] show ?case by simp
qed


lemma track_all_append: "track_all (xs @ ys) w = track_all ys (track_all xs w)"
  by (induction xs arbitrary: w) simp_all

lemma switching_samples_Suc:
  "switching_samples (Suc n) = switching_samples n @ [switching_sample n]"
  by (simp add: switching_samples_def)

lemma track_switching_sample:
  "current_activity (fst w) \<noteq> Some (if even i then ''a.exe'' else ''b.exe'') \<Longrightarrow>
   length (daily_logs (fst (track_activity (switching_sample i) w))) =
     Suc (length (daily_logs (fst w))) \<and>
   current_activity (fst (track_activity (switching_sample i) w)) =
     Some (if even i then ''a.exe'' else ''b.exe'')"
  by (cases w) (simp add: switching_sample_def Let_def)

text \<open>Every one of the alternating samples appends an entry to the log in memory.\<close>

lemma switching_run:
  assumes "current_activity (fst w) = None"
  shows "length (daily_logs (fst (track_all (switching_samples n) w))) =
           length (daily_logs (fst w)) + n \<and>
         current_activity (fst (track_all (switching_samples n) w)) =
           (case n of 0 \<Rightarrow> None | Suc m \<Rightarrow> Some (if even m then ''a.exe'' else ''b.exe''))"
proof (induction n)
  case 0
  with assms show ?case by (simp add: switching_samples_def)
next
  case (Suc n)
  let ?w = "track_all (switching_samples n) w"
  have "current_activity (fst ?w) \<noteq> Some (if even n then ''a.exe'' else ''b.exe'')"
    using Suc by (cases n) auto
  from track_switching_sample [OF this] Suc show ?case
    by (simp add: switching_samples_Suc track_all_append)
qed

lemma length_switched: "length (daily_logs switched_tracker) = 1001"
  unfolding switched_tracker_def
  using switching_run [of "(tracker_init 0 0 Absent, Absent)" 1001]
  by (simp add: tracker_init_def load_data_def)

lemma length_py_last_n: "length (py_last_n n xs) = min n (length xs)"
  by (simp add: py_last_n_def)

lemma py_last_n_all: "length xs \<le> n \<Longrightarrow> py_last_n n xs = xs"
  by (simp add: py_last_n_def)

lemma py_last_n_suffix: "xs = take (length xs - n) xs @ py_last_n n xs"
  by (simp add: py_last_n_def)

lemma py_last_n_tl: "length xs = Suc n \<Longrightarrow> py_last_n n xs = tl xs"
  by (simp add: py_last_n_def drop_Suc)

lemma track_activity_extends_log:
  "\<exists>new. daily_logs (fst (track_activity smp (t, f))) = daily_logs t @ new"
  by (cases "window_info smp") (auto simp: Let_def)

lemma map_of_dict_update:
  "distinct (map fst other) \<Longrightarrow>
   map_of (dict_update d other) k =
     (case map_of other k of Some v \<Rightarrow> Some v | None \<Rightarrow> map_of d k)"
proof (induction other arbitrary: d)
  case Nil
  then show ?case by (simp add: dict_update_def)
next
  case (Cons p other)
  obtain a b where p: "p = (a, b)" by (cases p)
  from Cons.prems p have notin: "map_of other a = None" and dist: "distinct (map fst other)"
    by (auto simp: map_of_eq_None_iff)
  have "map_of (dict_update d (p # other)) k = map_of (dict_update (AList.update a b d) other) k"
    by (simp add: dict_update_def p)
  also have "\<dots> =
      (case map_of other k of Some v \<Rightarrow> Some v | None \<Rightarrow> map_of (AList.update a b d) k)"
    by (rule Cons.IH [OF dist])
  finally show ?case using notin
    by (auto simp: p AList.update_conv' split: option.splits)
qed

lemma settings_init_muted:
  "get_setting muted_settings ''reminders_enabled'' = JBool False"
  "get_setting muted_settings ''break_reminder_enabled'' = JBool True"
  "get_setting muted_settings ''break_interval'' = JInt 30"
  by (simp_all add: muted_settings_def settings_init_def load_settings_def dict_update_def
      initial_default_settings_def get_setting_def)

lemma usage_block_no_break: "usage_block parse sm stats = Some ps \<Longrightarrow> filter is_break ps = []"
  by (auto simp: usage_block_def filter_empty_conv split: if_splits option.splits)

lemma idle_block_no_break: "idle_block parse sm stats = Some ps \<Longrightarrow> filter is_break ps = []"
  by (auto simp: idle_block_def Let_def split: if_splits option.splits)

lemma break_block_fires:
  assumes "py_truthy (get_setting sm ''break_reminder_enabled'')"
    and "py_float parse (get_setting sm ''break_interval'') = Some bi"
    and "stat_active_time stats / 60 \<ge> bi"
    and "check_clock inp \<ge> next_break_time pm"
  shows "break_block parse sm stats inp pm =
           Some ([BreakReminder (stat_active_time stats / 60)],
             (case snooze_answer inp of
                AnswerYes \<Rightarrow> pm\<lparr>next_break_time := resolve_clock inp + 300\<rparr>
              | AnswerNo \<Rightarrow> pm\<lparr>next_break_time := resolve_clock inp + bi * 60\<rparr>
              | DialogRaises \<Rightarrow> pm))"
  using assms
  by (cases "snooze_answer inp") (simp_all add: break_block_def Let_def snooze_break_def)

lemma sorted_py_sorted_reverse:
  "sorted_wrt (\<lambda>p q. key p \<ge> key q) (py_sorted_reverse key xs)"
proof -
  have "sorted (map (\<lambda>x. - key x) (py_sorted_reverse key xs))"
    unfolding py_sorted_reverse_def by (rule sorted_sort_key)
  then show ?thesis by (simp add: sorted_map)
qed

lemma stable_py_sorted_reverse:
  "filter (\<lambda>p. key p = v) (py_sorted_reverse key xs) = filter (\<lambda>p. key p = v) xs"
  using sort_key_stable [of "\<lambda>x. - key x" "- v" xs]
  by (simp add: py_sorted_reverse_def)

subsection \<open>Accounting invariant\<close>




subsection \<open>Clock moving backwards\<close>

text \<open>
  Claim C4. When \<^verbatim>\<open>time.time()\<close> is earlier than \<^verbatim>\<open>last_check_time\<close>, the delta is clamped
  to zero: \<^verbatim>\<open>active_time\<close> and \<^verbatim>\<open>idle_time\<close> are unchanged, every application's duration
  is unchanged (read as the \<^verbatim>\<open>defaultdict\<close> reads it, and entry by entry for the keys
  already present; a newly seen application enters with duration 0), and
  \<^verbatim>\<open>last_check_time\<close> becomes the current time.
\<close>

theorem backward_clock_clamped:
  assumes "current_time smp < last_check_time t"
  shows "active_time (fst (track_activity smp (t, f))) = active_time t \<and>
         idle_time (fst (track_activity smp (t, f))) = idle_time t \<and>
         (\<forall>a. dd_get (activities (fst (track_activity smp (t, f)))) a = dd_get (activities t) a) \<and>
         (\<forall>a v. map_of (activities t) a = Some v \<longrightarrow>
                 map_of (activities (fst (track_activity smp (t, f)))) a = Some v) \<and>
         sum_values (activities (fst (track_activity smp (t, f)))) = sum_values (activities t) \<and>
         last_check_time (fst (track_activity smp (t, f))) = current_time smp"
  using assms
  by (cases "window_info smp")
    (auto simp: Let_def dd_get_dd_add_zero map_of_dd_add_zero sum_values_dd_add)

theorem backward_clock_clamped_witness:
  "active_time (fst (track_activity
      \<lparr>current_time = 150, window_info = Some (''vlc.exe'', ''film''), stamp = ''t1'',
       save_outcome = WriteOk\<rparr> (demo_tracker, Absent))) = 60 \<and>
   idle_time (fst (track_activity
      \<lparr>current_time = 150, window_info = Some (''vlc.exe'', ''film''), stamp = ''t1'',
       save_outcome = WriteOk\<rparr> (demo_tracker, Absent))) = 7 \<and>
   last_check_time (fst (track_activity
      \<lparr>current_time = 150, window_info = Some (''vlc.exe'', ''film''), stamp = ''t1'',
       save_outcome = WriteOk\<rparr> (demo_tracker, Absent))) = 150"
  using backward_clock_clamped [of
      "\<lparr>current_time = 150, window_info = Some (''vlc.exe'', ''film''), stamp = ''t1'',
       save_outcome = WriteOk\<rparr>" demo_tracker Absent]
  by (simp add: demo_tracker_def)

subsection \<open>Switch events\<close>

text \<open>
  Claim C5. For a determinable window: a sample of the current application leaves the
  log as it is; a sample of another application appends exactly one entry, with action
  \<^verbatim>\<open>switched_to\<close>, and makes that application the current one.
\<close>

theorem switch_event_emission:
  assumes "window_info smp = Some (app, title)"
  shows "(current_activity t = Some app \<longrightarrow>
            daily_logs (fst (track_activity smp (t, f))) = daily_logs t) \<and>
         (current_activity t \<noteq> Some app \<longrightarrow>
            daily_logs (fst (track_activity smp (t, f))) =
              daily_logs t @ [\<lparr>timestamp = stamp smp, app_name = app,
                               window_title = title, action = ''switched_to''\<rparr>]) \<and>
         current_activity (fst (track_activity smp (t, f))) = Some app"
  using assms by (simp add: Let_def)

theorem switch_event_emission_witness:
  "daily_logs (fst (track_activity
      \<lparr>current_time = 205, window_info = Some (''code.exe'', ''util.py''), stamp = ''t1'',
       save_outcome = WriteOk\<rparr> (demo_tracker, Absent))) = daily_logs demo_tracker \<and>
   daily_logs (fst (track_activity
      \<lparr>current_time = 205, window_info = Some (''chrome.exe'', ''News''), stamp = ''t1'',
       save_outcome = WriteOk\<rparr> (demo_tracker, Absent))) =
     daily_logs demo_tracker @ [\<lparr>timestamp = ''t1'', app_name = ''chrome.exe'',
                                 window_title = ''News'', action = ''switched_to''\<rparr>]"
  using switch_event_emission [of
      "\<lparr>current_time = 205, window_info = Some (''code.exe'', ''util.py''), stamp = ''t1'',
       save_outcome = WriteOk\<rparr>" "''code.exe''" "''util.py''" demo_tracker Absent]
    switch_event_emission [of
      "\<lparr>current_time = 205, window_info = Some (''chrome.exe'', ''News''), stamp = ''t1'',
       save_outcome = WriteOk\<rparr>" "''chrome.exe''" "''News''" demo_tracker Absent]
  by (simp add: demo_tracker_def)

subsection \<open>The bound on the event log\<close>

text \<open>
  Claim C2, as stated, fails: \<^verbatim>\<open>track_activity\<close> appends to \<^verbatim>\<open>daily_logs\<close> and never
  truncates it. After 1001 switches in a fresh session the log in memory holds 1001
  entries.
\<close>

theorem memory_log_exceeds_bound:
  "\<not> length (daily_logs (fst (track_all (switching_samples 1001)
        (tracker_init 0 0 Absent, Absent)))) \<le> 1000"
  using length_switched by (simp add: switched_tracker_def)

text \<open>
  Claim C2, amended. The bound is on the persisted log: a successful \<^verbatim>\<open>save_data\<close> writes
  the last 1000 entries of \<^verbatim>\<open>daily_logs\<close>, at most 1000, in their original order (all of
  them when there are at most 1000; without the oldest when there are 1001), and a
  tracker loaded from that file holds at most 1000 entries. In memory \<^verbatim>\<open>track_activity\<close>
  only ever extends the log.
\<close>

theorem saved_log_bounded:
  "(\<exists>d. save_data t WriteOk f = Stored d \<and>
        f_daily_logs d = Some (py_last_n 1000 (daily_logs t))) \<and>
   length (py_last_n 1000 (daily_logs t)) \<le> 1000 \<and>
   daily_logs t =
     take (length (daily_logs t) - 1000) (daily_logs t) @ py_last_n 1000 (daily_logs t) \<and>
   (length (daily_logs t) \<le> 1000 \<longrightarrow> py_last_n 1000 (daily_logs t) = daily_logs t) \<and>
   (length (daily_logs t) = 1001 \<longrightarrow> py_last_n 1000 (daily_logs t) = tl (daily_logs t)) \<and>
   length (daily_logs (load_data (save_data t WriteOk f) t')) \<le> 1000 \<and>
   (\<exists>new. daily_logs (fst (track_activity smp (t, f))) = daily_logs t @ new)"
proof -
  have "py_last_n 1000 (daily_logs t) = tl (daily_logs t)" if "length (daily_logs t) = 1001"
    using that py_last_n_tl [of "daily_logs t" 1000] by simp
  moreover have "daily_logs t =
      take (length (daily_logs t) - 1000) (daily_logs t) @ py_last_n 1000 (daily_logs t)"
    by (rule py_last_n_suffix)
  moreover have "length (daily_logs (load_data (save_data t WriteOk f) t')) \<le> 1000"
    by (simp add: save_data_def load_data_def length_py_last_n)
  ultimately show ?thesis
    using track_activity_extends_log [of smp t f]
    by (simp add: save_data_def length_py_last_n py_last_n_all)
qed

theorem saved_log_bounded_witness:
  "length (daily_logs switched_tracker) = 1001 \<and>
   py_last_n 1000 (daily_logs switched_tracker) = tl (daily_logs switched_tracker)"
  using saved_log_bounded [of switched_tracker] length_switched by simp

subsection \<open>Saving and loading\<close>

text \<open>
  Claim C8, as stated, fails for a log of more than 1000 entries: after the 1001
  switches above, saving and loading does not give the log back.
\<close>

theorem round_trip_loses_old_entries:
  "daily_logs (load_data (save_data switched_tracker WriteOk Absent) switched_tracker) \<noteq>
   daily_logs switched_tracker"
proof
  assume "daily_logs (load_data (save_data switched_tracker WriteOk Absent) switched_tracker) =
          daily_logs switched_tracker"
  then have "length (py_last_n 1000 (daily_logs switched_tracker)) =
             length (daily_logs switched_tracker)"
    by (simp add: save_data_def load_data_def)
  then show False by (simp add: length_py_last_n length_switched)
qed

text \<open>
  Claim C8, amended. A successful \<^verbatim>\<open>save_data\<close> followed by \<^verbatim>\<open>load_data\<close>, into any tracker,
  reproduces \<^verbatim>\<open>activities\<close>, \<^verbatim>\<open>idle_time\<close>, \<^verbatim>\<open>active_time\<close> and \<^verbatim>\<open>session_start\<close>, and the
  last 1000 entries of the log in their order; when the log has at most 1000 entries
  it is reproduced whole, and loading into the saved tracker changes nothing.
\<close>

theorem round_trip_last_1000:
  "activities (load_data (save_data t WriteOk f) t') = activities t \<and>
   idle_time (load_data (save_data t WriteOk f) t') = idle_time t \<and>
   active_time (load_data (save_data t WriteOk f) t') = active_time t \<and>
   session_start (load_data (save_data t WriteOk f) t') = session_start t \<and>
   daily_logs (load_data (save_data t WriteOk f) t') = py_last_n 1000 (daily_logs t) \<and>
   (length (daily_logs t) \<le> 1000 \<longrightarrow>
      daily_logs (load_data (save_data t WriteOk f) t') = daily_logs t \<and>
      load_data (save_data t WriteOk f) t = t)"
  by (simp add: save_data_def load_data_def py_last_n_all)

theorem round_trip_last_1000_witness:
  "length (daily_logs demo_tracker) \<le> 1000 \<and>
   load_data (save_data demo_tracker WriteOk Absent) demo_tracker = demo_tracker \<and>
   daily_logs (load_data (save_data demo_tracker WriteOk Absent) (tracker_init 0 0 Absent)) =
     daily_logs demo_tracker"
  using round_trip_last_1000 [of demo_tracker Absent demo_tracker]
    round_trip_last_1000 [of demo_tracker Absent "tracker_init 0 0 Absent"]
  by (simp add: demo_tracker_def py_last_n_def)

subsection \<open>Clearing\<close>

text \<open>
  Claim C9. \<^verbatim>\<open>clear_data\<close> empties \<^verbatim>\<open>activities\<close> and the log, zeroes \<^verbatim>\<open>active_time\<close> and
  \<^verbatim>\<open>idle_time\<close>, sets \<^verbatim>\<open>session_start\<close> to the current time and at once calls \<^verbatim>\<open>save_data\<close>
  on the cleared tracker, so that after a successful write the file holds the cleared
  state. A second clear at the same time leaves the tracker unchanged, and with a
  successful write the file too.
\<close>

theorem clear_data_resets:
  "activities (fst (clear_data now out w)) = [] \<and>
   active_time (fst (clear_data now out w)) = 0 \<and>
   idle_time (fst (clear_data now out w)) = 0 \<and>
   daily_logs (fst (clear_data now out w)) = [] \<and>
   session_start (fst (clear_data now out w)) = now \<and>
   snd (clear_data now out w) = save_data (fst (clear_data now out w)) out (snd w) \<and>
   snd (clear_data now WriteOk w) =
     Stored \<lparr>f_activities = Some [], f_idle_time = Some 0, f_active_time = Some 0,
             f_session_start = Some now, f_daily_logs = Some []\<rparr> \<and>
   fst (clear_data now out' (clear_data now out w)) = fst (clear_data now out w) \<and>
   clear_data now WriteOk (clear_data now out w) = clear_data now WriteOk w"
  by (cases w) (simp add: Let_def save_data_def py_last_n_def)

text \<open>
  Claim C10. \<^verbatim>\<open>clear_data\<close> leaves \<^verbatim>\<open>current_activity\<close> and \<^verbatim>\<open>last_check_time\<close> as they
  were. So when application \<open>app\<close> was current before the clear, the first determinable
  sample after it, coming after any number of samples with no determinable window
  and being of \<open>app\<close>, appends nothing: the log stays empty.
\<close>

theorem clear_data_keeps_current:
  "current_activity (fst (clear_data now out (t, f))) = current_activity t \<and>
   last_check_time (fst (clear_data now out (t, f))) = last_check_time t \<and>
   (current_activity t = Some app \<and> (\<forall>s \<in> set idles. window_info s = None) \<and>
    window_info smp = Some (app, title) \<longrightarrow>
      daily_logs (fst (track_activity smp (track_all idles (clear_data now out (t, f))))) = [])"
proof -
  let ?w = "track_all idles (clear_data now out (t, f))"
  have "daily_logs (fst (track_activity smp ?w)) = []"
    if cur: "current_activity t = Some app"
      and idle: "\<forall>s \<in> set idles. window_info s = None"
      and smp: "window_info smp = Some (app, title)"
  proof -
    from idle_samples_keep_current [OF idle, of "clear_data now out (t, f)"] cur
    have "current_activity (fst ?w) = Some app" and "daily_logs (fst ?w) = []"
      by (simp_all add: Let_def)
    then show ?thesis using smp by (cases ?w) (simp add: Let_def)
  qed
  then show ?thesis by (simp add: Let_def)
qed

theorem clear_data_keeps_current_witness:
  "current_activity (fst (clear_data 300 WriteOk (demo_tracker, Absent))) = Some ''code.exe'' \<and>
   daily_logs (fst (track_activity
      \<lparr>current_time = 310, window_info = Some (''code.exe'', ''util.py''), stamp = ''t2'',
       save_outcome = WriteOk\<rparr>
      (track_all [\<lparr>current_time = 305, window_info = None, stamp = ''t1'',
                   save_outcome = WriteOk\<rparr>]
        (clear_data 300 WriteOk (demo_tracker, Absent))))) = []"
  using clear_data_keeps_current [of 300 WriteOk demo_tracker Absent "''code.exe''"
      "[\<lparr>current_time = 305, window_info = None, stamp = ''t1'', save_outcome = WriteOk\<rparr>]"
      "\<lparr>current_time = 310, window_info = Some (''code.exe'', ''util.py''), stamp = ''t2'',
       save_outcome = WriteOk\<rparr>" "''util.py''"]
  by (simp add: demo_tracker_def)

subsection \<open>Top applications\<close>

text \<open>
  Claim C6. \<^verbatim>\<open>get_top_apps\<close> returns the first \<open>n\<close> items of the applications sorted by
  descending duration, ties in first-seen (insertion) order: the sorted list is a
  rearrangement of the items of \<^verbatim>\<open>activities\<close>, its durations never increase, and for
  each duration the applications having it come in the order they have in
  \<^verbatim>\<open>activities\<close>. \<^verbatim>\<open>get_statistics\<close> reports the first five. With A:100, B:100, C:50 seen in
  the order A, B, C, the top two are A, B.
\<close>

theorem top_apps_descending_stable:
  "mset (py_sorted_reverse snd (activities t)) = mset (activities t) \<and>
   sorted_wrt (\<lambda>p q. snd p \<ge> snd q) (py_sorted_reverse snd (activities t)) \<and>
   filter (\<lambda>p. snd p = v) (py_sorted_reverse snd (activities t)) =
     filter (\<lambda>p. snd p = v) (activities t) \<and>
   get_top_apps t (int m) = take m (py_sorted_reverse snd (activities t)) \<and>
   top_apps (get_statistics now t) = take 5 (py_sorted_reverse snd (activities t)) \<and>
   get_top_apps three_apps 2 = [(''A'', 100), (''B'', 100)]"
proof -
  have "get_top_apps three_apps 2 = [(''A'', 100), (''B'', 100)]"
    by (simp add: get_top_apps_def three_apps_def py_take_def py_sorted_reverse_def)
  moreover have "mset (py_sorted_reverse snd (activities t)) = mset (activities t)"
    by (simp add: py_sorted_reverse_def)
  ultimately show ?thesis
    by (simp add: sorted_py_sorted_reverse stable_py_sorted_reverse get_top_apps_def
        get_statistics_def py_take_def)
qed

section \<open>Properties of the settings store\<close>

text \<open>
  Claim C7, as stated, fails: \<^verbatim>\<open>merged.update(loaded)\<close> looks at no value. A file that
  gives \<^verbatim>\<open>idle_threshold\<close> as a string yields that string, not the default 15.
\<close>

theorem wrong_shape_overrides_default:
  "map_of (load_settings initial_default_settings
             (SettingsObj [(''idle_threshold'', JStr ''soon'')])) ''idle_threshold''
   \<noteq> Some (JInt 15)"
  by (simp add: load_settings_def dict_update_def initial_default_settings_def)

text \<open>
  Claim C7, amended. Loading a JSON object merges it over the defaults: a key absent
  from the file keeps its default, a key present takes the loaded value whatever it
  is. A file without \<^verbatim>\<open>idle_threshold\<close> yields 15 for it, and every loaded value is
  what \<^verbatim>\<open>get_setting\<close> returns.
\<close>

theorem load_settings_merge:
  assumes "distinct (map fst loaded)"
  shows "map_of (load_settings defaults (SettingsObj loaded)) key =
           (case map_of loaded key of Some v \<Rightarrow> Some v | None \<Rightarrow> map_of defaults key) \<and>
         (map_of loaded ''idle_threshold'' = None \<longrightarrow>
            get_setting (settings_init (SettingsObj loaded)) ''idle_threshold'' = JInt 15) \<and>
         (\<forall>v. map_of loaded key = Some v \<longrightarrow>
            get_setting (settings_init (SettingsObj loaded)) key = v)"
  using assms
  by (simp add: load_settings_def map_of_dict_update get_setting_def settings_init_def
      initial_default_settings_def)

theorem load_settings_merge_witness:
  "distinct (map fst [(''break_interval'', JInt 45), (''popup_interval'', JStr ''often'')]) \<and>
   get_setting (settings_init (SettingsObj
      [(''break_interval'', JInt 45), (''popup_interval'', JStr ''often'')])) ''idle_threshold'' =
     JInt 15 \<and>
   get_setting (settings_init (SettingsObj
      [(''break_interval'', JInt 45), (''popup_interval'', JStr ''often'')])) ''popup_interval'' =
     JStr ''often''"
  using load_settings_merge
    [of "[(''break_interval'', JInt 45), (''popup_interval'', JStr ''often'')]"
      initial_default_settings "''popup_interval''"]
  by simp

section \<open>Properties of the reminder engine\<close>

text \<open>
  Claim C3, as stated, fails: \<^verbatim>\<open>check_and_show_reminders\<close> returns at once when
  \<^verbatim>\<open>reminders_enabled\<close> is off. With 1900 active seconds, a break interval of 30 minutes,
  break reminders enabled and the next break time in the past, no popup is shown.
\<close>

theorem break_reminder_muted:
  "check_clock decline_input \<ge> next_break_time popup_init \<and>
   active_time busy_tracker / 60 \<ge> 30 \<and>
   py_float no_parse (get_setting muted_settings ''break_interval'') = Some 30 \<and>
   py_truthy (get_setting muted_settings ''break_reminder_enabled'') \<and>
   popups (check_and_show_reminders no_parse muted_settings busy_tracker decline_input
     popup_init) = []"
  by (simp add: settings_init_muted check_and_show_reminders_def decline_input_def popup_init_def
      busy_tracker_def)

text \<open>
  Claim C3, amended. When \<^verbatim>\<open>reminders_enabled\<close> and \<^verbatim>\<open>break_reminder_enabled\<close> hold, the
  break interval is the number \<open>bi\<close>, the active minutes are at least \<open>bi\<close> and the
  clock has reached \<^verbatim>\<open>next_break_time\<close>, exactly one break reminder is shown. Answering
  no to the snooze dialog sets \<^verbatim>\<open>next_break_time\<close> to the clock at that answer plus
  \<open>bi * 60\<close>; answering yes sets it to that clock plus 300.
\<close>

theorem break_reminder_fires:
  assumes "py_truthy (get_setting sm ''reminders_enabled'')"
    and "py_truthy (get_setting sm ''break_reminder_enabled'')"
    and "py_float parse (get_setting sm ''break_interval'') = Some bi"
    and "active_time t / 60 \<ge> bi"
    and "check_clock inp \<ge> next_break_time pm"
  shows "length (filter is_break (popups (check_and_show_reminders parse sm t inp pm))) = 1 \<and>
         (snooze_answer inp = AnswerNo \<longrightarrow>
            next_break_time (manager (check_and_show_reminders parse sm t inp pm)) =
              resolve_clock inp + bi * 60) \<and>
         (snooze_answer inp = AnswerYes \<longrightarrow>
            next_break_time (manager (check_and_show_reminders parse sm t inp pm)) =
              resolve_clock inp + 300)"
proof -
  let ?stats = "get_statistics (stats_clock inp) t"
  have act: "stat_active_time ?stats / 60 \<ge> bi"
    using assms(4) by (simp add: get_statistics_def)
  note bb = break_block_fires [OF assms(2) assms(3) act assms(5)]
  show ?thesis
    using assms(1)
    by (auto simp: check_and_show_reminders_def Let_def bb
        dest: usage_block_no_break idle_block_no_break split: option.splits)
qed

theorem break_reminder_fires_witness:
  "length (filter is_break (popups (check_and_show_reminders no_parse
      (settings_init NoSettingsFile) busy_tracker decline_input popup_init))) = 1 \<and>
   next_break_time (manager (check_and_show_reminders no_parse
      (settings_init NoSettingsFile) busy_tracker decline_input popup_init)) = 5010 + 1800 \<and>
   next_break_time (manager (check_and_show_reminders no_parse
      (settings_init NoSettingsFile) busy_tracker snooze_input popup_init)) = 5010 + 300"
  using break_reminder_fires [where sm = "settings_init NoSettingsFile" and parse = no_parse
      and bi = 30 and t = busy_tracker and inp = decline_input and pm = popup_init]
    break_reminder_fires [where sm = "settings_init NoSettingsFile" and parse = no_parse
      and bi = 30 and t = busy_tracker and inp = snooze_input and pm = popup_init]
  by (simp add: settings_init_def load_settings_def initial_default_settings_def get_setting_def
      busy_tracker_def decline_input_def snooze_input_def popup_init_def)

end
